theory Spec2Isabelle
  imports Complex_Main
begin

section \<open>Numbers\<close>

text \<open>
  Amounts are JavaScript Numbers holding decimal money values. They are modelled as exact
  rationals: the model is the decimal arithmetic the code is written for, without binary
  rounding error. Quantities and stock levels are integers.

  \<open>toFixed2 x\<close> is \<^verbatim>\<open>parseFloat(x.toFixed(2))\<close>: \<^verbatim>\<open>toFixed\<close> treats the sign
  apart and picks the nearest multiple of 1/100 of the magnitude, the larger one on a tie.
  \<open>mathRound x\<close> is \<^verbatim>\<open>Math.round(x)\<close>: the nearest integer, a tie going up.
\<close>

definition toFixed2 :: "rat \<Rightarrow> rat" where
  "toFixed2 x =
     (if x < 0 then - (of_int \<lfloor>(- x) * 100 + 1 / 2\<rfloor> / 100)
      else of_int \<lfloor>x * 100 + 1 / 2\<rfloor> / 100)"

definition mathRound :: "rat \<Rightarrow> int" where
  "mathRound x = \<lfloor>x + 1 / 2\<rfloor>"

section \<open>Data model (models/Order.js, models/Product.js)\<close>

type_synonym objectId = nat

record orderItem =
  product :: objectId
  vendorId :: objectId
  name :: string
  image :: "string option"
  price :: rat
  qty :: int
  itemRevenue :: rat
  platformFee :: rat
  vendorPayout :: rat
  itemStatus :: string

record order =
  orderId :: objectId
  customer :: objectId
  items :: "orderItem list"
  subtotal :: rat
  platformFeeTotal :: rat
  shippingCost :: rat
  total :: rat
  commissionRate :: rat
  stripeSessionId :: "string option"
  stripePaymentIntentId :: "string option"
  status :: string
  isPaid :: bool
  paidAt :: "nat option"
  isDelivered :: bool
  deliveredAt :: "nat option"

text \<open>
  Identifiers are Mongo ObjectIds, opaque here; dates are points on a clock counted in
  natural numbers. \<open>image\<close> is \<^verbatim>\<open>product.images[0]\<close>, undefined for a product
  without images. The shipping address, the payment method, the notes and the
  \<^verbatim>\<open>timestamps\<close> columns are not read by any operation below and are left out.
\<close>

record product =
  productVendorId :: objectId
  productName :: string
  productPrice :: rat
  images :: "string list"
  stock :: int
  isActive :: bool

record user =
  userId :: objectId
  role :: string
  email :: string

definition orderStatusEnum :: "string list" where
  "orderStatusEnum =
     [''Pending'', ''Paid'', ''Processing'', ''Shipped'', ''Delivered'', ''Cancelled'',
      ''Refunded'']"

definition itemStatusEnum :: "string list" where
  "itemStatusEnum = [''Pending'', ''Processing'', ''Shipped'', ''Delivered'', ''Cancelled'']"

text \<open>
  The validators the two schemas declare on the fields above: at least one item, every
  required string present and not empty, \<^verbatim>\<open>qty\<close> at least 1, both status fields
  within their \<^verbatim>\<open>enum\<close>.
\<close>

definition validateItem :: "orderItem \<Rightarrow> bool" where
  "validateItem item =
     (name item \<noteq> [] \<and> image item \<noteq> None \<and> image item \<noteq> Some [] \<and> 1 \<le> qty item
      \<and> itemStatus item \<in> set itemStatusEnum)"

definition validateOrder :: "order \<Rightarrow> bool" where
  "validateOrder doc =
     (1 \<le> length (items doc) \<and> list_all validateItem (items doc)
      \<and> status doc \<in> set orderStatusEnum)"

section \<open>Pre-save hook of the order schema\<close>

text \<open>
  \<open>commissionRateOf\<close> is the first line of the hook:
  \<^verbatim>\<open>this.commissionRate || parseFloat(process.env.PLATFORM_COMMISSION_RATE) || 0.10\<close>.
  The environment value is a parameter: \<open>None\<close> when the variable is unset or does not
  parse (NaN is falsy), as is the number zero.
\<close>

definition commissionRateOf :: "rat option \<Rightarrow> order \<Rightarrow> rat" where
  "commissionRateOf envRate this =
     (if commissionRate this \<noteq> 0 then commissionRate this
      else case envRate of
        Some r \<Rightarrow> if r \<noteq> 0 then r else 1 / 10
      | None \<Rightarrow> 1 / 10)"

text \<open>The callback of \<^verbatim>\<open>this.items.map\<close>, without the two accumulators.\<close>

definition commissionItem :: "rat \<Rightarrow> orderItem \<Rightarrow> orderItem" where
  "commissionItem rate item =
     (let itemRevenue' = price item * of_int (qty item);
          platformFee' = toFixed2 (itemRevenue' * rate);
          vendorPayout' = toFixed2 (itemRevenue' - platformFee')
      in item\<lparr>itemRevenue := itemRevenue', platformFee := platformFee',
               vendorPayout := vendorPayout'\<rparr>)"

text \<open>
  The loop of the hook: it walks the items in order, adds each item's revenue and fee to
  the running \<^verbatim>\<open>subtotal\<close> and \<^verbatim>\<open>platformFeeTotal\<close>, and collects the rewritten
  items.
\<close>

fun commissionLoop :: "rat \<Rightarrow> orderItem list \<Rightarrow> rat \<times> rat \<Rightarrow> orderItem list \<times> rat \<times> rat" where
  "commissionLoop rate [] (sub, fee) = ([], sub, fee)"
| "commissionLoop rate (item # rest) (sub, fee) =
     (let item' = commissionItem rate item;
          (rest', sub', fee') =
             commissionLoop rate rest (sub + itemRevenue item', fee + platformFee item')
      in (item' # rest', sub', fee'))"

definition preSave :: "rat option \<Rightarrow> order \<Rightarrow> order" where
  "preSave envRate this =
     (let rate = commissionRateOf envRate this;
          (items', sub, fee) = commissionLoop rate (items this) (0, 0)
      in this\<lparr>items := items',
               subtotal := toFixed2 sub,
               platformFeeTotal := toFixed2 fee,
               total := toFixed2 (sub + (if shippingCost this \<noteq> 0 then shippingCost this else 0))\<rparr>)"

section \<open>The stores and the payment provider\<close>

text \<open>
  The state is the two collections and the log of the requests sent to
  \<^verbatim>\<open>stripe.checkout.sessions.create\<close>. Products are keyed by their \<^verbatim>\<open>_id\<close>; orders
  are kept in insertion order, which is the order \<^verbatim>\<open>findOne\<close> searches in.
\<close>

record lineItem =
  productDataName :: string
  unit_amount :: int
  quantity :: int

record sessionParams =
  line_items :: "lineItem list"
  metadataOrderId :: objectId
  customer_email :: string

record session =
  sessionId :: string
  sessionUrl :: string

record world =
  products :: "objectId \<rightharpoonup> product"
  orders :: "order list"
  stripeRequests :: "sessionParams list"

datatype error =
    NoOrderItems
  | NotFound objectId
  | InsufficientStock string int
  | ValidationError
  | ValidationFailed
  | ExternalServiceError
  | OrderNotFound
  | Forbidden
  | AccessDenied

text \<open>The status each failure is answered with (\<^verbatim>\<open>res.status\<close>, the error middleware).\<close>

fun statusCode :: "error \<Rightarrow> nat" where
  "statusCode NoOrderItems = 400"
| "statusCode (NotFound _) = 404"
| "statusCode (InsufficientStock _ _) = 400"
| "statusCode ValidationError = 400"
| "statusCode ValidationFailed = 400"
| "statusCode ExternalServiceError = 500"
| "statusCode OrderNotFound = 404"
| "statusCode Forbidden = 403"
| "statusCode AccessDenied = 403"

definition findById :: "objectId \<Rightarrow> order list \<Rightarrow> order option" where
  "findById oid os = find (\<lambda>doc. orderId doc = oid) os"

definition findOneBySessionId :: "string \<Rightarrow> order list \<Rightarrow> order option" where
  "findOneBySessionId sid os = find (\<lambda>doc. stripeSessionId doc = Some sid) os"

definition replaceOrder :: "order \<Rightarrow> order list \<Rightarrow> order list" where
  "replaceOrder doc os = map (\<lambda>x. if orderId x = orderId doc then doc else x) os"

text \<open>
  \<^verbatim>\<open>doc.save(options)\<close>: validation first (unless \<^verbatim>\<open>validateBeforeSave: false\<close>),
  then the pre-save hook, then the write: an insert for a new document, an update of the
  document with the same \<^verbatim>\<open>_id\<close> otherwise. It returns the document as saved.
\<close>

definition save :: "rat option \<Rightarrow> bool \<Rightarrow> bool \<Rightarrow> order \<Rightarrow> order list \<Rightarrow> error + order \<times> order list" where
  "save envRate validateBeforeSave isNew doc os =
     (if validateBeforeSave \<and> \<not> validateOrder doc then Inl ValidationError
      else let doc' = preSave envRate doc
           in Inr (doc', if isNew then os @ [doc'] else replaceOrder doc' os))"

text \<open>
  \<^verbatim>\<open>Product.findByIdAndUpdate(id, { $inc: { stock: d } })\<close>: an update that runs no
  validator; nothing happens when no product has the id.
\<close>

definition findByIdAndUpdateIncStock :: "objectId \<Rightarrow> int \<Rightarrow> (objectId \<rightharpoonup> product) \<Rightarrow> (objectId \<rightharpoonup> product)" where
  "findByIdAndUpdateIncStock pid d ps =
     (case ps pid of
        None \<Rightarrow> ps
      | Some p \<Rightarrow> ps(pid \<mapsto> p\<lparr>stock := stock p + d\<rparr>))"

text \<open>The loop of the webhook over \<^verbatim>\<open>order.items\<close>, one decrement per line, in order.\<close>

fun decrementStock :: "orderItem list \<Rightarrow> (objectId \<rightharpoonup> product) \<Rightarrow> (objectId \<rightharpoonup> product)" where
  "decrementStock [] ps = ps"
| "decrementStock (item # rest) ps =
     decrementStock rest (findByIdAndUpdateIncStock (product item) (- qty item) ps)"

section \<open>Checkout: \<^verbatim>\<open>createOrder\<close>\<close>

record orderLine =
  productId :: objectId
  reqQty :: int

record createOrderBody =
  bodyItems :: "orderLine list"
  bodyShippingCost :: "rat option"

record created =
  createdOrderId :: objectId
  createdSessionUrl :: string

text \<open>The line-item snapshot pushed onto \<^verbatim>\<open>validatedItems\<close>, with the schema's defaults.\<close>

definition snapshot :: "objectId \<Rightarrow> product \<Rightarrow> int \<Rightarrow> orderItem" where
  "snapshot pid p q =
     \<lparr>product = pid, vendorId = productVendorId p, name = productName p,
      image = (case images p of [] \<Rightarrow> None | i # _ \<Rightarrow> Some i),
      price = productPrice p, qty = q,
      itemRevenue = 0, platformFee = 0, vendorPayout = 0, itemStatus = ''Pending''\<rparr>"

text \<open>
  The validation loop: it stops at the first line whose product is missing or inactive
  (404) or whose quantity exceeds the stock (400), as the \<^verbatim>\<open>throw\<close> does.
\<close>

fun validateItems :: "(objectId \<rightharpoonup> product) \<Rightarrow> orderLine list \<Rightarrow> error + orderItem list" where
  "validateItems ps [] = Inr []"
| "validateItems ps (item # rest) =
     (case ps (productId item) of
        None \<Rightarrow> Inl (NotFound (productId item))
      | Some p \<Rightarrow>
          if \<not> isActive p then Inl (NotFound (productId item))
          else if stock p < reqQty item then Inl (InsufficientStock (productName p) (stock p))
          else (case validateItems ps rest of
                  Inl e \<Rightarrow> Inl e
                | Inr validatedItems \<Rightarrow> Inr (snapshot (productId item) p (reqQty item) # validatedItems)))"

text \<open>\<^verbatim>\<open>new Order({...})\<close> as \<^verbatim>\<open>createOrder\<close> calls it, the other fields at their defaults.\<close>

definition newOrder :: "objectId \<Rightarrow> objectId \<Rightarrow> orderItem list \<Rightarrow> rat \<Rightarrow> order" where
  "newOrder newId customerId validatedItems shippingCost' =
     \<lparr>orderId = newId, customer = customerId, items = validatedItems,
      subtotal = 0, platformFeeTotal = 0, shippingCost = shippingCost', total = 0,
      commissionRate = 1 / 10, stripeSessionId = None, stripePaymentIntentId = None,
      status = ''Pending'', isPaid = False, paidAt = None,
      isDelivered = False, deliveredAt = None\<rparr>"

text \<open>The Stripe line items: each unit price in paisa, and a shipping line when charged.\<close>

definition stripeLineItems :: "orderItem list \<Rightarrow> rat \<Rightarrow> lineItem list" where
  "stripeLineItems validatedItems shippingCost' =
     map (\<lambda>item. \<lparr>productDataName = name item,
                    unit_amount = mathRound (price item * 100),
                    quantity = qty item\<rparr>) validatedItems
     @ (if shippingCost' > 0
        then [\<lparr>productDataName = ''Shipping'',
               unit_amount = mathRound (shippingCost' * 100),
               quantity = 1\<rparr>]
        else [])"


text \<open>
  \<^verbatim>\<open>createOrder\<close>. The provider's \<^verbatim>\<open>sessions.create\<close> is a parameter, \<open>None\<close>
  when the call throws; \<open>newId\<close> is the \<^verbatim>\<open>_id\<close> the new document is given.
\<close>

definition createOrder :: "rat option \<Rightarrow> (sessionParams \<Rightarrow> session option) \<Rightarrow> objectId \<Rightarrow> user \<Rightarrow> createOrderBody \<Rightarrow> world \<Rightarrow> world \<times> (error + created)" where
  "createOrder envRate sessionsCreate newId reqUser body w =
     (let shippingCost' = (case bodyShippingCost body of None \<Rightarrow> 0 | Some c \<Rightarrow> c)
      in if bodyItems body = [] then (w, Inl NoOrderItems)
         else case validateItems (products w) (bodyItems body) of
           Inl e \<Rightarrow> (w, Inl e)
         | Inr validatedItems \<Rightarrow>
             (case save envRate True True
                     (newOrder newId (userId reqUser) validatedItems shippingCost') (orders w) of
                Inl e \<Rightarrow> (w, Inl e)
              | Inr (order1, os1) \<Rightarrow>
                  let params = \<lparr>line_items = stripeLineItems validatedItems shippingCost',
                                metadataOrderId = orderId order1,
                                customer_email = email reqUser\<rparr>;
                      w1 = w\<lparr>orders := os1, stripeRequests := stripeRequests w @ [params]\<rparr>
                  in (case sessionsCreate params of
                        None \<Rightarrow> (w1, Inl ExternalServiceError)
                      | Some sess \<Rightarrow>
                          (case save envRate False False
                                  (order1\<lparr>stripeSessionId := Some (sessionId sess)\<rparr>) os1 of
                             Inl e \<Rightarrow> (w1, Inl e)
                           | Inr (order2, os2) \<Rightarrow>
                               (w1\<lparr>orders := os2\<rparr>,
                                Inr \<lparr>createdOrderId = orderId order2,
                                     createdSessionUrl = sessionUrl sess\<rparr>)))))"

text \<open>
  The route \<^verbatim>\<open>POST /api/orders\<close> runs \<^verbatim>\<open>validateCreateOrder\<close> before the controller:
  a non-empty item array, integer quantities of at least 1, and a shipping cost, when
  given, of at least 0.
\<close>

definition validateCreateOrder :: "createOrderBody \<Rightarrow> bool" where
  "validateCreateOrder body =
     (1 \<le> length (bodyItems body) \<and> list_all (\<lambda>item. 1 \<le> reqQty item) (bodyItems body)
      \<and> (case bodyShippingCost body of None \<Rightarrow> True | Some c \<Rightarrow> 0 \<le> c))"

definition postOrders :: "rat option \<Rightarrow> (sessionParams \<Rightarrow> session option) \<Rightarrow> objectId \<Rightarrow> user \<Rightarrow> createOrderBody \<Rightarrow> world \<Rightarrow> world \<times> (error + created)" where
  "postOrders envRate sessionsCreate newId reqUser body w =
     (if \<not> validateCreateOrder body then (w, Inl ValidationFailed)
      else createOrder envRate sessionsCreate newId reqUser body w)"

section \<open>Status update: \<^verbatim>\<open>updateOrderStatus\<close>\<close>

definition updateOrderStatus :: "rat option \<Rightarrow> nat \<Rightarrow> user \<Rightarrow> objectId \<Rightarrow> string \<Rightarrow> world \<Rightarrow> world \<times> (error + order)" where
  "updateOrderStatus envRate now reqUser oid status' w =
     (case findById oid (orders w) of
        None \<Rightarrow> (w, Inl OrderNotFound)
      | Some order \<Rightarrow>
          if role reqUser = ''Vendor''
             \<and> \<not> list_ex (\<lambda>item. vendorId item = userId reqUser) (items order)
          then (w, Inl Forbidden)
          else
            let order1 = order\<lparr>status := status'\<rparr>;
                order2 = (if status' = ''Delivered''
                          then order1\<lparr>isDelivered := True, deliveredAt := Some now\<rparr>
                          else order1)
            in (case save envRate True False order2 (orders w) of
                  Inl e \<Rightarrow> (w, Inl e)
                | Inr (saved, os) \<Rightarrow> (w\<lparr>orders := os\<rparr>, Inr saved)))"

text \<open>
  The route \<^verbatim>\<open>PUT /api/orders/:id/status\<close>: \<^verbatim>\<open>vendorOnly\<close>, which is
  \<^verbatim>\<open>authorise('Vendor', 'Admin')\<close>, then \<^verbatim>\<open>validateOrderStatus\<close>, then the controller.
\<close>

definition authorise :: "string list \<Rightarrow> user \<Rightarrow> bool" where
  "authorise roles reqUser = (role reqUser \<in> set roles)"

definition vendorOnly :: "user \<Rightarrow> bool" where
  "vendorOnly = authorise [''Vendor'', ''Admin'']"

definition validateOrderStatus :: "string \<Rightarrow> bool" where
  "validateOrderStatus s =
     (s \<noteq> [] \<and> s \<in> set [''Pending'', ''Paid'', ''Processing'', ''Shipped'', ''Delivered'',
                            ''Cancelled'', ''Refunded''])"

definition putOrderStatus :: "rat option \<Rightarrow> nat \<Rightarrow> user \<Rightarrow> objectId \<Rightarrow> string \<Rightarrow> world \<Rightarrow> world \<times> (error + order)" where
  "putOrderStatus envRate now reqUser oid status' w =
     (if \<not> vendorOnly reqUser then (w, Inl AccessDenied)
      else if \<not> validateOrderStatus status' then (w, Inl ValidationFailed)
      else updateOrderStatus envRate now reqUser oid status' w)"

section \<open>Payment webhook: \<^verbatim>\<open>stripeWebhook\<close>\<close>

record webhookRequest =
  rawBody :: string
  stripeSignature :: "string option"

record stripeEvent =
  eventType :: string
  eventSessionId :: string
  payment_intent :: "string option"

text \<open>
  \<^verbatim>\<open>stripe.webhooks.constructEvent\<close> is a parameter: it returns the event the raw body
  carries when the signature verifies against the secret, and \<open>None\<close> when it throws.
  The handler answers with a status code.
\<close>

definition stripeWebhook :: "(string \<Rightarrow> string option \<Rightarrow> string option \<Rightarrow> stripeEvent option) \<Rightarrow> rat option \<Rightarrow> string option \<Rightarrow> nat \<Rightarrow> webhookRequest \<Rightarrow> world \<Rightarrow> world \<times> nat" where
  "stripeWebhook constructEvent envRate webhookSecret now req w =
     (case constructEvent (rawBody req) (stripeSignature req) webhookSecret of
        None \<Rightarrow> (w, 400)
      | Some event \<Rightarrow>
          if eventType event = ''checkout.session.completed'' then
            (case findOneBySessionId (eventSessionId event) (orders w) of
               None \<Rightarrow> (w, 200)
             | Some order \<Rightarrow>
                 (case save envRate False False
                         (order\<lparr>status := ''Paid'', isPaid := True, paidAt := Some now,
                                stripePaymentIntentId := payment_intent event\<rparr>) (orders w) of
                    Inl e \<Rightarrow> (w, statusCode e)
                  | Inr (saved, os) \<Rightarrow>
                      (w\<lparr>orders := os,
                         products := decrementStock (items saved) (products w)\<rparr>, 200)))
          else (w, 200))"

section \<open>Predicates and concrete inputs used in the statements\<close>


text \<open>
  The two-item order of the rounding example, built as \<^verbatim>\<open>createOrder\<close> builds an order
  (commission rate at its default of 0.10), an order of one item of 1000 with a shipping
  cost of 0.004, and an order of three items of 0.04 each.
\<close>

definition exampleItem :: "objectId \<Rightarrow> rat \<Rightarrow> int \<Rightarrow> orderItem" where
  "exampleItem pid p q =
     \<lparr>product = pid, vendorId = 7, name = ''Item'', image = Some ''item.png'', price = p, qty = q,
      itemRevenue = 0, platformFee = 0, vendorPayout = 0, itemStatus = ''Pending''\<rparr>"




text \<open>
  A cart line is offending when its product is missing or inactive or its quantity exceeds
  the stock; \<open>lineError\<close> is the error \<^verbatim>\<open>createOrder\<close> throws for such a line.
\<close>

definition offending :: "(objectId \<rightharpoonup> product) \<Rightarrow> orderLine \<Rightarrow> bool" where
  "offending ps line =
     (case ps (productId line) of
        None \<Rightarrow> True
      | Some p \<Rightarrow> \<not> isActive p \<or> stock p < reqQty line)"

definition lineError :: "(objectId \<rightharpoonup> product) \<Rightarrow> orderLine \<Rightarrow> error" where
  "lineError ps line =
     (case ps (productId line) of
        None \<Rightarrow> NotFound (productId line)
      | Some p \<Rightarrow> if \<not> isActive p then NotFound (productId line)
                 else InsufficientStock (productName p) (stock p))"

text \<open>
  A catalogue of one product (id 10, price 1000, the given stock), a customer, an
  administrator, a provider that opens a session for every request, and a cart whose first
  line asks for more than the stock and whose second line names no product.
\<close>

definition exampleProduct :: "int \<Rightarrow> product" where
  "exampleProduct s =
     \<lparr>productVendorId = 7, productName = ''Item'', productPrice = 1000,
      images = [''item.png''], stock = s, isActive = True\<rparr>"

definition exampleWorld :: "int \<Rightarrow> world" where
  "exampleWorld s = \<lparr>products = [10 \<mapsto> exampleProduct s], orders = [], stripeRequests = []\<rparr>"

definition exampleCustomer :: user where
  "exampleCustomer = \<lparr>userId = 2, role = ''Customer'', email = ''customer@example.com''\<rparr>"

definition exampleAdmin :: user where
  "exampleAdmin = \<lparr>userId = 1, role = ''Admin'', email = ''admin@example.com''\<rparr>"

definition exampleSessions :: "sessionParams \<Rightarrow> session option" where
  "exampleSessions params =
     Some \<lparr>sessionId = (if metadataOrderId params = 1 then ''cs_1'' else ''cs_2''),
           sessionUrl = ''https://checkout.example/pay''\<rparr>"

definition mixedCart :: createOrderBody where
  "mixedCart = \<lparr>bodyItems = [\<lparr>productId = 10, reqQty = 6\<rparr>, \<lparr>productId = 99, reqQty = 1\<rparr>],
                bodyShippingCost = None\<rparr>"

text \<open>
  The quantity an order asks of one product over all its lines, the document the webhook
  writes for a matched order, and the carts whose products all have prices of at most two
  decimals.
\<close>

definition orderedQty :: "objectId \<Rightarrow> orderItem list \<Rightarrow> int" where
  "orderedQty pid its = sum_list (map qty (filter (\<lambda>item. product item = pid) its))"

definition paidDoc :: "rat option \<Rightarrow> nat \<Rightarrow> stripeEvent \<Rightarrow> order \<Rightarrow> order" where
  "paidDoc envRate now event doc =
     preSave envRate (doc\<lparr>status := ''Paid'', isPaid := True, paidAt := Some now,
                          stripePaymentIntentId := payment_intent event\<rparr>)"


text \<open>
  The end-to-end scenario. A customer checks out a cart of two units of product 10 (price
  1000, stock 5): \<open>pendingOrder\<close> is the order this stores, \<open>checkoutRequest\<close> the request
  sent to the provider and \<open>checkoutWorld\<close> the resulting state. The example verifier accepts
  the signature \<open>good\<close> under the secret \<open>whsec\<close> and reads the session id from the
  payload; \<open>deliver\<close> is one delivery of such a signed notification. \<open>deliveredOrder\<close> is
  the order once paid at time 50 and set to Delivered at time 100.
\<close>

definition cartOf :: "int \<Rightarrow> createOrderBody" where
  "cartOf q = \<lparr>bodyItems = [\<lparr>productId = 10, reqQty = q\<rparr>], bodyShippingCost = None\<rparr>"

definition pendingOrder :: order where
  "pendingOrder =
     (preSave None (newOrder 1 2 [exampleItem 10 1000 2] 0))\<lparr>stripeSessionId := Some ''cs_1''\<rparr>"

definition checkoutRequest :: sessionParams where
  "checkoutRequest =
     \<lparr>line_items = [\<lparr>productDataName = ''Item'', unit_amount = 100000, quantity = 2\<rparr>],
      metadataOrderId = 1, customer_email = ''customer@example.com''\<rparr>"

definition checkoutWorld :: world where
  "checkoutWorld = fst (postOrders None exampleSessions 1 exampleCustomer (cartOf 2) (exampleWorld 5))"

definition deliveredOrder :: order where
  "deliveredOrder =
     pendingOrder
       \<lparr>stripePaymentIntentId := Some ''pi_1'', status := ''Delivered'', isPaid := True,
        paidAt := Some 50, isDelivered := True, deliveredAt := Some 100\<rparr>"

definition deliveredWorld :: world where
  "deliveredWorld =
     \<lparr>products = [10 \<mapsto> exampleProduct 3], orders = [deliveredOrder],
      stripeRequests = [checkoutRequest]\<rparr>"

definition exampleConstructEvent :: "string \<Rightarrow> string option \<Rightarrow> string option \<Rightarrow> stripeEvent option" where
  "exampleConstructEvent payload sig secret =
     (if sig = Some ''good'' \<and> secret = Some ''whsec''
      then Some \<lparr>eventType = ''checkout.session.completed'', eventSessionId = payload,
                 payment_intent = Some ''pi_1''\<rparr>
      else None)"

definition forgedRequest :: webhookRequest where
  "forgedRequest = \<lparr>rawBody = ''cs_1'', stripeSignature = Some ''forged''\<rparr>"

definition signedRequest :: "string \<Rightarrow> webhookRequest" where
  "signedRequest sid = \<lparr>rawBody = sid, stripeSignature = Some ''good''\<rparr>"

definition deliver :: "nat \<Rightarrow> string \<Rightarrow> world \<Rightarrow> world" where
  "deliver now sid w =
     fst (stripeWebhook exampleConstructEvent None (Some ''whsec'') now (signedRequest sid) w)"

text \<open>
  Two checkouts of one unit each against a stock of one, both then paid; and a catalogue
  whose product costs 10.004.
\<close>

definition oversoldWorld :: world where
  "oversoldWorld =
     deliver 200 ''cs_2'' (deliver 100 ''cs_1''
       (fst (postOrders None exampleSessions 2 exampleCustomer (cartOf 1)
         (fst (postOrders None exampleSessions 1 exampleCustomer (cartOf 1) (exampleWorld 1))))))"


section \<open>Arithmetic of amounts\<close>

lemma floor_rat_fraction: "\<lfloor>(numeral a :: rat) / numeral b\<rfloor> = numeral a div numeral b"
  using floor_divide_of_int_eq [of "numeral a" "numeral b", where ?'a = rat] by simp











lemma commissionLoop_eq:
  "commissionLoop rate xs (s, f) =
     (map (commissionItem rate) xs,
      s + sum_list (map itemRevenue (map (commissionItem rate) xs)),
      f + sum_list (map platformFee (map (commissionItem rate) xs)))"
  by (induction xs arbitrary: s f) (simp_all add: Let_def add.assoc)

lemma preSave_items: "items (preSave envRate this) = map (commissionItem (commissionRateOf envRate this)) (items this)"
  by (simp add: preSave_def commissionLoop_eq Let_def)




lemma commissionItem_fields:
  "itemRevenue (commissionItem rate item) = price item * of_int (qty item)"
  "platformFee (commissionItem rate item) = toFixed2 (price item * of_int (qty item) * rate)"
  "vendorPayout (commissionItem rate item) = toFixed2 (price item * of_int (qty item) - toFixed2 (price item * of_int (qty item) * rate))"
  "price (commissionItem rate item) = price item"
  "qty (commissionItem rate item) = qty item"
  "product (commissionItem rate item) = product item"
  by (simp_all add: commissionItem_def Let_def)












section \<open>Commission and totals\<close>





section \<open>Checkout\<close>

lemma validateItems_first_offending:
  "list_all (\<lambda>l. \<not> offending ps l) pre \<Longrightarrow> offending ps bad \<Longrightarrow>
     validateItems ps (pre @ bad # post) = Inl (lineError ps bad)"
proof (induction pre)
  case Nil
  then show ?case
    by (auto simp: offending_def lineError_def split: option.splits)
next
  case (Cons l pre)
  then show ?case
    by (auto simp: offending_def split: option.splits)
qed

lemma first_offending_split:
  "list_ex P xs \<Longrightarrow> \<exists>pre bad post. xs = pre @ bad # post \<and> list_all (\<lambda>l. \<not> P l) pre \<and> P bad"
proof -
  assume "list_ex P xs"
  then have "\<exists>x\<in>set xs. P x" by (simp add: list_ex_iff)
  from split_list_first_prop [OF this]
  obtain ys x zs where "xs = ys @ x # zs" "P x" "\<forall>y\<in>set ys. \<not> P y" by blast
  then show ?thesis by (auto simp: list_all_iff)
qed

text \<open>
  C5 (as amended). When some line of the cart is offending, \<^verbatim>\<open>createOrder\<close> fails with
  the error of the first offending line in cart order: NotFound naming the product id when
  that line's product is missing or inactive, InsufficientStock naming the product and its
  remaining stock when the quantity exceeds the stock. The state is returned unchanged: no
  order is created and nothing is sent to the payment provider, whatever the other lines
  are.
\<close>

theorem createOrder_all_or_nothing:
  assumes "list_ex (offending (products w)) (bodyItems body)"
  shows "\<exists>pre bad post.
           bodyItems body = pre @ bad # post
           \<and> list_all (\<lambda>l. \<not> offending (products w) l) pre
           \<and> offending (products w) bad
           \<and> createOrder envRate sessionsCreate newId reqUser body w
               = (w, Inl (lineError (products w) bad))"
proof -
  from first_offending_split [OF assms]
  obtain pre bad post where s: "bodyItems body = pre @ bad # post"
    and p: "list_all (\<lambda>l. \<not> offending (products w) l) pre" and b: "offending (products w) bad"
    by blast
  have "validateItems (products w) (bodyItems body) = Inl (lineError (products w) bad)"
    by (simp only: s validateItems_first_offending [OF p b])
  then have "createOrder envRate sessionsCreate newId reqUser body w
               = (w, Inl (lineError (products w) bad))"
    by (simp add: createOrder_def s)
  with s p b show ?thesis by blast
qed

theorem createOrder_all_or_nothing_witness:
  "list_ex (offending (products (exampleWorld 5))) (bodyItems mixedCart)
   \<and> createOrder None exampleSessions 1 exampleCustomer mixedCart (exampleWorld 5)
       = (exampleWorld 5, Inl (InsufficientStock ''Item'' 5))"
proof -
  have h: "list_ex (offending (products (exampleWorld 5))) (bodyItems mixedCart)"
    by (simp add: offending_def mixedCart_def exampleWorld_def exampleProduct_def)
  from createOrder_all_or_nothing [OF h, of None exampleSessions 1 exampleCustomer]
  obtain pre bad post where s: "bodyItems mixedCart = pre @ bad # post"
    and p: "list_all (\<lambda>l. \<not> offending (products (exampleWorld 5)) l) pre"
    and r: "createOrder None exampleSessions 1 exampleCustomer mixedCart (exampleWorld 5)
               = (exampleWorld 5, Inl (lineError (products (exampleWorld 5)) bad))"
    by blast
  have o: "offending (products (exampleWorld 5)) \<lparr>productId = 10, reqQty = 6\<rparr>"
    by (simp add: offending_def exampleWorld_def exampleProduct_def)
  have "pre = []"
  proof (cases pre)
    case Nil then show ?thesis .
  next
    case (Cons a list)
    with s have "a = \<lparr>productId = 10, reqQty = 6\<rparr>" by (simp add: mixedCart_def)
    with p Cons o show ?thesis by simp
  qed
  with s have "bad = \<lparr>productId = 10, reqQty = 6\<rparr>" by (simp add: mixedCart_def)
  then have "lineError (products (exampleWorld 5)) bad = InsufficientStock ''Item'' 5"
    by (simp add: lineError_def exampleWorld_def exampleProduct_def)
  with h r show ?thesis by simp
qed

text \<open>
  C5, counterexample. The claim as stated fails on a cart whose first line exceeds the stock and whose second
  line names a nonexistent product: the operation fails with InsufficientStock, not with
  NotFound.
\<close>

theorem createOrder_mixed_cart_counterexample:
  "products (exampleWorld 5) (productId (bodyItems mixedCart ! 1)) = None
   \<and> createOrder None exampleSessions 1 exampleCustomer mixedCart (exampleWorld 5)
       = (exampleWorld 5, Inl (InsufficientStock ''Item'' 5))
   \<and> InsufficientStock ''Item'' 5 \<noteq> NotFound (productId (bodyItems mixedCart ! 1))"
  by (simp add: createOrder_def mixedCart_def exampleWorld_def exampleProduct_def)

section \<open>Stored orders\<close>

lemma preSave_kept:
  "orderId (preSave envRate this) = orderId this"
  "status (preSave envRate this) = status this"
  "stripeSessionId (preSave envRate this) = stripeSessionId this"
  "isPaid (preSave envRate this) = isPaid this"
  "paidAt (preSave envRate this) = paidAt this"
  "isDelivered (preSave envRate this) = isDelivered this"
  "deliveredAt (preSave envRate this) = deliveredAt this"
  "shippingCost (preSave envRate this) = shippingCost this"
  by (simp_all add: preSave_def Let_def split: prod.splits)

lemma find_replaceOrder:
  "find P os = Some found \<Longrightarrow> orderId doc = orderId found \<Longrightarrow> P doc \<Longrightarrow>
     find P (replaceOrder doc os) = Some doc"
proof (induction os)
  case Nil
  then show ?case by simp
next
  case (Cons x xs)
  show ?case
  proof (cases "P x")
    case True
    with Cons.prems show ?thesis by (simp add: replaceOrder_def)
  next
    case False
    with Cons.prems have "find P xs = Some found" by simp
    from Cons.IH [OF this Cons.prems(2) Cons.prems(3)] False Cons.prems(3)
    show ?thesis by (simp add: replaceOrder_def)
  qed
qed

lemma findById_orderId: "findById oid os = Some found \<Longrightarrow> orderId found = oid"
  unfolding findById_def by (auto simp: find_Some_iff)

lemma findById_replaceOrder:
  assumes "findById oid os = Some found" and "orderId doc = oid"
  shows "findById oid (replaceOrder doc os) = Some doc"
proof -
  from assms(1) have "orderId found = oid" by (rule findById_orderId)
  with assms(2) have "orderId doc = orderId found" by simp
  from find_replaceOrder [OF assms(1) [unfolded findById_def] this] assms(2)
  show ?thesis by (simp add: findById_def)
qed

lemma findOneBySessionId_Some:
  "findOneBySessionId sid os = Some doc \<Longrightarrow> stripeSessionId doc = Some sid"
  unfolding findOneBySessionId_def by (auto simp: find_Some_iff)

lemma findOneBySessionId_in: "findOneBySessionId sid os = Some doc \<Longrightarrow> doc \<in> set os"
  unfolding findOneBySessionId_def by (auto simp: find_Some_iff)

lemma findById_of_member:
  "doc \<in> set os \<Longrightarrow> \<exists>found. findById (orderId doc) os = Some found"
  unfolding findById_def by (cases "find (\<lambda>d. orderId d = orderId doc) os") (auto simp: find_None_iff)

section \<open>The example scenario\<close>

lemmas example_defs = cartOf_def checkoutWorld_def pendingOrder_def checkoutRequest_def
  exampleItem_def exampleAdmin_def deliveredOrder_def deliveredWorld_def deliver_def exampleWorld_def exampleProduct_def
  exampleCustomer_def exampleSessions_def exampleConstructEvent_def signedRequest_def

lemmas code_defs = postOrders_def validateCreateOrder_def createOrder_def save_def
  validateOrder_def validateItem_def snapshot_def newOrder_def orderStatusEnum_def
  itemStatusEnum_def stripeLineItems_def stripeWebhook_def findOneBySessionId_def
  replaceOrder_def findByIdAndUpdateIncStock_def preSave_def commissionLoop_eq
  commissionItem_def commissionRateOf_def toFixed2_def mathRound_def floor_rat_fraction Let_def

lemmas route_defs = putOrderStatus_def vendorOnly_def authorise_def validateOrderStatus_def
  updateOrderStatus_def findById_def

lemma checkout_result:
  "postOrders None exampleSessions 1 exampleCustomer (cartOf 2) (exampleWorld 5)
     = (\<lparr>products = [10 \<mapsto> exampleProduct 5], orders = [pendingOrder],
         stripeRequests = [checkoutRequest]\<rparr>,
        Inr \<lparr>createdOrderId = 1, createdSessionUrl = ''https://checkout.example/pay''\<rparr>)"
  by (simp add: example_defs code_defs)

lemma checkoutWorld_eq:
  "checkoutWorld = \<lparr>products = [10 \<mapsto> exampleProduct 5], orders = [pendingOrder],
                     stripeRequests = [checkoutRequest]\<rparr>"
  by (simp only: checkoutWorld_def checkout_result fst_conv)

lemma deliveredWorld_reached:
  "fst (putOrderStatus None 100 exampleAdmin 1 ''Delivered'' (deliver 50 ''cs_1'' checkoutWorld))
     = deliveredWorld"
  by (simp add: route_defs example_defs code_defs)

lemma deliveredOrder_stored: "findById 1 (orders deliveredWorld) = Some deliveredOrder"
  by (simp add: findById_def example_defs code_defs)

lemma deliveredOrder_valid: "validateOrder deliveredOrder"
  by (simp add: example_defs code_defs)

lemma deliveredOrder_session:
  "findOneBySessionId ''cs_1'' (orders deliveredWorld) = Some deliveredOrder"
  "findOneBySessionId ''cs_9'' (orders deliveredWorld) = None"
  by (simp_all add: example_defs code_defs)

lemma pendingOrder_session:
  "findOneBySessionId ''cs_1'' (orders checkoutWorld) = Some pendingOrder"
  by (simp add: checkoutWorld_eq findOneBySessionId_def pendingOrder_def preSave_kept)

lemma signed_event:
  "exampleConstructEvent (rawBody (signedRequest sid)) (stripeSignature (signedRequest sid))
       (Some ''whsec'')
     = Some \<lparr>eventType = ''checkout.session.completed'', eventSessionId = sid,
             payment_intent = Some ''pi_1''\<rparr>"
  by (simp add: exampleConstructEvent_def signedRequest_def)

section \<open>Webhook authentication and unknown sessions\<close>

text \<open>
  C6. When the signature does not verify (\<^verbatim>\<open>constructEvent\<close> throws), the handler
  answers 400 and returns the state as it was: no order, no product and no payment field is
  changed.
\<close>

theorem stripeWebhook_invalid_signature:
  assumes "constructEvent (rawBody req) (stripeSignature req) webhookSecret = None"
  shows "stripeWebhook constructEvent envRate webhookSecret now req w = (w, 400)"
  using assms by (simp add: stripeWebhook_def)

theorem stripeWebhook_invalid_signature_witness:
  "exampleConstructEvent (rawBody forgedRequest) (stripeSignature forgedRequest) (Some ''whsec'') = None
   \<and> stripeWebhook exampleConstructEvent None (Some ''whsec'') 200 forgedRequest deliveredWorld
       = (deliveredWorld, 400)"
proof -
  have h: "exampleConstructEvent (rawBody forgedRequest) (stripeSignature forgedRequest)
             (Some ''whsec'') = None"
    by (simp add: exampleConstructEvent_def forgedRequest_def)
  from stripeWebhook_invalid_signature
    [where constructEvent = exampleConstructEvent and req = forgedRequest
       and webhookSecret = "Some ''whsec''" and envRate = None and now = 200
       and w = deliveredWorld] h
  show ?thesis by blast
qed

text \<open>
  C7. A verified \<^verbatim>\<open>checkout.session.completed\<close> event whose session id matches no
  stored order is answered with 200 and leaves the state as it was.
\<close>

theorem stripeWebhook_unknown_session:
  assumes "constructEvent (rawBody req) (stripeSignature req) webhookSecret = Some event"
    and "eventType event = ''checkout.session.completed''"
    and "findOneBySessionId (eventSessionId event) (orders w) = None"
  shows "stripeWebhook constructEvent envRate webhookSecret now req w = (w, 200)"
  using assms by (simp add: stripeWebhook_def)

theorem stripeWebhook_unknown_session_witness:
  "exampleConstructEvent (rawBody (signedRequest ''cs_9'')) (stripeSignature (signedRequest ''cs_9''))
       (Some ''whsec'')
     = Some \<lparr>eventType = ''checkout.session.completed'', eventSessionId = ''cs_9'',
             payment_intent = Some ''pi_1''\<rparr>
   \<and> findOneBySessionId ''cs_9'' (orders deliveredWorld) = None
   \<and> stripeWebhook exampleConstructEvent None (Some ''whsec'') 200 (signedRequest ''cs_9'')
        deliveredWorld = (deliveredWorld, 200)"
proof -
  have h1: "exampleConstructEvent (rawBody (signedRequest ''cs_9''))
       (stripeSignature (signedRequest ''cs_9'')) (Some ''whsec'')
     = Some \<lparr>eventType = ''checkout.session.completed'', eventSessionId = ''cs_9'',
             payment_intent = Some ''pi_1''\<rparr>"
    by (simp add: exampleConstructEvent_def signedRequest_def)
  note h3 = deliveredOrder_session(2)
  from stripeWebhook_unknown_session
    [where constructEvent = exampleConstructEvent and req = "signedRequest ''cs_9''"
       and webhookSecret = "Some ''whsec''" and envRate = None and now = 200
       and w = deliveredWorld
       and event = "\<lparr>eventType = ''checkout.session.completed'', eventSessionId = ''cs_9'',
             payment_intent = Some ''pi_1''\<rparr>"] h1 h3
  show ?thesis by simp
qed

section \<open>Status updates\<close>

lemma updateOrderStatus_saved:
  assumes f: "findById oid (orders w) = Some order"
    and a: "\<not> (role reqUser = ''Vendor'' \<and> \<not> list_ex (\<lambda>item. vendorId item = userId reqUser) (items order))"
    and v: "validateOrder (order\<lparr>status := s\<rparr>)"
  shows "updateOrderStatus envRate now reqUser oid s w =
           (w\<lparr>orders := replaceOrder
                 (preSave envRate
                   (if s = ''Delivered''
                    then order\<lparr>status := s, isDelivered := True, deliveredAt := Some now\<rparr>
                    else order\<lparr>status := s\<rparr>)) (orders w)\<rparr>,
            Inr (preSave envRate
                   (if s = ''Delivered''
                    then order\<lparr>status := s, isDelivered := True, deliveredAt := Some now\<rparr>
                    else order\<lparr>status := s\<rparr>)))"
proof -
  from v have "validateOrder (order\<lparr>status := s, isDelivered := True, deliveredAt := Some now\<rparr>)"
    by (simp add: validateOrder_def)
  with f a v show ?thesis
    by (cases "s = ''Delivered''") (simp_all add: updateOrderStatus_def save_def Let_def)
qed

text \<open>
  C10. For every stored order (valid under its schema, as every stored order is), every
  value of the status enumeration and every caller the route admits for that order (an
  administrator, or a vendor with an item in it), the status update succeeds and the
  stored order has the requested status, whatever its status was: no transition table is
  consulted. The instance that follows moves a Delivered order back to Pending.
\<close>

theorem putOrderStatus_accepts_every_status:
  assumes "findById oid (orders w) = Some order"
    and "validateOrder order"
    and "role reqUser = ''Admin''
         \<or> (role reqUser = ''Vendor'' \<and> list_ex (\<lambda>item. vendorId item = userId reqUser) (items order))"
    and "s \<in> set orderStatusEnum"
  shows "\<exists>saved w'. putOrderStatus envRate now reqUser oid s w = (w', Inr saved)
           \<and> findById oid (orders w') = Some saved
           \<and> status saved = s"
proof -
  let ?doc = "if s = ''Delivered''
              then order\<lparr>status := s, isDelivered := True, deliveredAt := Some now\<rparr>
              else order\<lparr>status := s\<rparr>"
  from assms(2) assms(4) have v: "validateOrder (order\<lparr>status := s\<rparr>)"
    by (simp add: validateOrder_def)
  from assms(3) have a: "\<not> (role reqUser = ''Vendor''
        \<and> \<not> list_ex (\<lambda>item. vendorId item = userId reqUser) (items order))"
    by auto
  from assms(3) have r: "vendorOnly reqUser"
    by (auto simp: vendorOnly_def authorise_def)
  from assms(4) have e: "validateOrderStatus s"
    by (auto simp: validateOrderStatus_def orderStatusEnum_def)
  have u: "putOrderStatus envRate now reqUser oid s w =
             (w\<lparr>orders := replaceOrder (preSave envRate ?doc) (orders w)\<rparr>, Inr (preSave envRate ?doc))"
    using r e updateOrderStatus_saved [OF assms(1) a v] by (simp add: putOrderStatus_def)
  have i: "orderId (preSave envRate ?doc) = oid"
    using findById_orderId [OF assms(1)] by (simp add: preSave_kept)
  have "findById oid (orders (w\<lparr>orders := replaceOrder (preSave envRate ?doc) (orders w)\<rparr>))
          = Some (preSave envRate ?doc)"
    using findById_replaceOrder [OF assms(1) i] by simp
  moreover have "status (preSave envRate ?doc) = s"
    by (simp add: preSave_kept)
  ultimately show ?thesis using u by blast
qed

theorem putOrderStatus_accepts_every_status_witness:
  "findById 1 (orders deliveredWorld) = Some deliveredOrder
   \<and> validateOrder deliveredOrder
   \<and> role exampleAdmin = ''Admin''
   \<and> ''Pending'' \<in> set orderStatusEnum
   \<and> status deliveredOrder = ''Delivered''
   \<and> (\<exists>saved w'. putOrderStatus None 300 exampleAdmin 1 ''Pending'' deliveredWorld = (w', Inr saved)
           \<and> findById 1 (orders w') = Some saved
           \<and> status saved = ''Pending'')"
proof -
  note h1 = deliveredOrder_stored
  note h2 = deliveredOrder_valid
  have h3: "role exampleAdmin = ''Admin''
         \<or> (role exampleAdmin = ''Vendor''
             \<and> list_ex (\<lambda>item. vendorId item = userId exampleAdmin) (items deliveredOrder))"
    by (simp add: exampleAdmin_def)
  have h4: "''Pending'' \<in> set orderStatusEnum"
    by (simp add: orderStatusEnum_def)
  have h5: "status deliveredOrder = ''Delivered''"
    by (simp add: deliveredOrder_def)
  have h6: "role exampleAdmin = ''Admin''" by (simp add: exampleAdmin_def)
  from putOrderStatus_accepts_every_status [OF h1 h2 h3 h4, of None 300] h1 h2 h4 h5 h6
  show ?thesis by blast
qed

section \<open>Payment reconciliation\<close>

lemma decrementStock_lookup:
  "decrementStock its ps pid = map_option (\<lambda>p. p\<lparr>stock := stock p - orderedQty pid its\<rparr>) (ps pid)"
proof (induction its arbitrary: ps)
  case Nil
  show ?case by (cases "ps pid") (simp_all add: orderedQty_def)
next
  case (Cons item rest)
  show ?case
  proof (cases "ps (product item)")
    case None
    then show ?thesis
      by (cases "ps pid") (auto simp: Cons.IH findByIdAndUpdateIncStock_def orderedQty_def)
  next
    case (Some p)
    then show ?thesis
      by (cases "ps pid") (auto simp: Cons.IH findByIdAndUpdateIncStock_def orderedQty_def)
  qed
qed

lemma orderedQty_preSave: "orderedQty pid (items (preSave envRate this)) = orderedQty pid (items this)"
proof -
  have "orderedQty pid (map (commissionItem r) its) = orderedQty pid its" for r its
    by (induction its) (simp_all add: orderedQty_def commissionItem_fields)
  then show ?thesis by (simp add: preSave_items)
qed

lemma stripeWebhook_paid:
  assumes "constructEvent (rawBody req) (stripeSignature req) webhookSecret = Some event"
    and "eventType event = ''checkout.session.completed''"
    and "findOneBySessionId (eventSessionId event) (orders w) = Some doc"
  shows "stripeWebhook constructEvent envRate webhookSecret now req w =
           (w\<lparr>orders := replaceOrder (paidDoc envRate now event doc) (orders w),
              products := decrementStock (items (paidDoc envRate now event doc)) (products w)\<rparr>, 200)"
  using assms by (simp add: stripeWebhook_def save_def paidDoc_def Let_def)

lemma paidDoc_fields:
  "orderId (paidDoc envRate now event doc) = orderId doc"
  "status (paidDoc envRate now event doc) = ''Paid''"
  "isPaid (paidDoc envRate now event doc) = True"
  "paidAt (paidDoc envRate now event doc) = Some now"
  "stripeSessionId (paidDoc envRate now event doc) = stripeSessionId doc"
  "isDelivered (paidDoc envRate now event doc) = isDelivered doc"
  "deliveredAt (paidDoc envRate now event doc) = deliveredAt doc"
  "orderedQty pid (items (paidDoc envRate now event doc)) = orderedQty pid (items doc)"
  by (simp_all add: paidDoc_def preSave_kept orderedQty_preSave)

lemma pendingOrder_qty: "orderedQty 10 (items pendingOrder) = 2"
proof -
  have "orderedQty 10 (items pendingOrder)
          = orderedQty 10 (items (newOrder 1 2 [exampleItem 10 1000 2] 0))"
    by (simp add: pendingOrder_def orderedQty_preSave)
  also have "\<dots> = 2"
    by (simp add: orderedQty_def newOrder_def exampleItem_def)
  finally show ?thesis .
qed

lemma pendingOrder_facts:
  "orderId pendingOrder = 1"
  "products checkoutWorld 10 = Some (exampleProduct 5)"
  "stock (exampleProduct 5) = 5"
  by (simp_all add: checkoutWorld_eq pendingOrder_def preSave_kept newOrder_def
      exampleProduct_def)

text \<open>
  C2 (as amended). Every delivery of a verified completed-checkout event for a stored order
  is answered with 200, leaves the order with status Paid (so the status after the second
  delivery is the one after the first) and decrements the stock of each product by the
  quantity the order asks of it: the handler does not look at the order's current status,
  so after two deliveries of the same event the stock has been decremented twice.
\<close>

theorem stripeWebhook_redelivery:
  assumes v: "constructEvent (rawBody req) (stripeSignature req) webhookSecret = Some event"
    and c: "eventType event = ''checkout.session.completed''"
    and f: "findOneBySessionId (eventSessionId event) (orders w) = Some doc"
    and w1: "w1 = fst (stripeWebhook constructEvent envRate webhookSecret now1 req w)"
    and w2: "w2 = fst (stripeWebhook constructEvent envRate webhookSecret now2 req w1)"
  shows "snd (stripeWebhook constructEvent envRate webhookSecret now1 req w) = 200
     \<and> snd (stripeWebhook constructEvent envRate webhookSecret now2 req w1) = 200
     \<and> map_option status (findById (orderId doc) (orders w1)) = Some ''Paid''
     \<and> map_option status (findById (orderId doc) (orders w2)) = Some ''Paid''
     \<and> (\<forall>pid p. products w pid = Some p \<longrightarrow>
           map_option stock (products w1 pid) = Some (stock p - orderedQty pid (items doc))
         \<and> map_option stock (products w2 pid) = Some (stock p - 2 * orderedQty pid (items doc)))"
proof -
  let ?d1 = "paidDoc envRate now1 event doc"
  let ?d2 = "paidDoc envRate now2 event ?d1"
  note r1 = stripeWebhook_paid [where constructEvent = constructEvent and req = req
      and webhookSecret = webhookSecret and event = event and w = w and doc = doc
      and envRate = envRate and now = now1, OF v c f]
  from r1 w1 have o1: "orders w1 = replaceOrder ?d1 (orders w)"
    and p1: "products w1 = decrementStock (items ?d1) (products w)" by simp_all
  note s0 = findOneBySessionId_Some [OF f]
  have f1: "findOneBySessionId (eventSessionId event) (orders w1) = Some ?d1"
    unfolding o1 findOneBySessionId_def
    by (rule find_replaceOrder [OF f [unfolded findOneBySessionId_def]])
       (simp_all add: paidDoc_fields s0)
  note r2 = stripeWebhook_paid [where constructEvent = constructEvent and req = req
      and webhookSecret = webhookSecret and event = event and w = w1 and doc = "?d1"
      and envRate = envRate and now = now2, OF v c f1]
  from r2 w2 have o2: "orders w2 = replaceOrder ?d2 (orders w1)"
    and p2: "products w2 = decrementStock (items ?d2) (products w1)" by simp_all
  from findById_of_member [OF findOneBySessionId_in [OF f]]
  obtain found where b0: "findById (orderId doc) (orders w) = Some found" ..
  have b1: "findById (orderId doc) (orders w1) = Some ?d1"
    unfolding o1 by (rule findById_replaceOrder [OF b0]) (simp add: paidDoc_fields)
  have b2: "findById (orderId doc) (orders w2) = Some ?d2"
    unfolding o2 by (rule findById_replaceOrder [OF b1]) (simp add: paidDoc_fields)
  have st: "map_option stock (products w1 pid) = Some (stock p - orderedQty pid (items doc))
         \<and> map_option stock (products w2 pid) = Some (stock p - 2 * orderedQty pid (items doc))"
    if "products w pid = Some p" for pid p
    using that by (simp add: p1 p2 decrementStock_lookup paidDoc_fields)
  from r1 r2 b1 b2 st show ?thesis by (simp add: paidDoc_fields)
qed

theorem stripeWebhook_redelivery_witness:
  "exampleConstructEvent (rawBody (signedRequest ''cs_1'')) (stripeSignature (signedRequest ''cs_1''))
       (Some ''whsec'')
     = Some \<lparr>eventType = ''checkout.session.completed'', eventSessionId = ''cs_1'',
             payment_intent = Some ''pi_1''\<rparr>
   \<and> findOneBySessionId ''cs_1'' (orders checkoutWorld) = Some pendingOrder
   \<and> products checkoutWorld 10 = Some (exampleProduct 5)
   \<and> map_option status
         (findById 1 (orders (deliver 200 ''cs_1'' (deliver 100 ''cs_1'' checkoutWorld))))
       = Some ''Paid''
   \<and> map_option stock (products (deliver 100 ''cs_1'' checkoutWorld) 10) = Some (5 - 2)
   \<and> map_option stock (products (deliver 200 ''cs_1'' (deliver 100 ''cs_1'' checkoutWorld)) 10)
       = Some (5 - 2 * 2)"
proof -
  let ?event = "\<lparr>eventType = ''checkout.session.completed'', eventSessionId = ''cs_1'',
                 payment_intent = Some ''pi_1''\<rparr>"
  note v = signed_event [of "''cs_1''"]
  have c: "eventType ?event = ''checkout.session.completed''" by simp
  have f: "findOneBySessionId (eventSessionId ?event) (orders checkoutWorld) = Some pendingOrder"
    using pendingOrder_session by simp
  have w1: "deliver 100 ''cs_1'' checkoutWorld
              = fst (stripeWebhook exampleConstructEvent None (Some ''whsec'') 100
                      (signedRequest ''cs_1'') checkoutWorld)"
    by (simp add: deliver_def)
  have w2: "deliver 200 ''cs_1'' (deliver 100 ''cs_1'' checkoutWorld)
              = fst (stripeWebhook exampleConstructEvent None (Some ''whsec'') 200
                      (signedRequest ''cs_1'') (deliver 100 ''cs_1'' checkoutWorld))"
    by (simp add: deliver_def)
  note r = stripeWebhook_redelivery
    [where constructEvent = exampleConstructEvent and req = "signedRequest ''cs_1''"
       and webhookSecret = "Some ''whsec''" and event = ?event and w = checkoutWorld
       and doc = pendingOrder and envRate = None and ?now1.0 = 100 and ?now2.0 = 200
       and ?w1.0 = "deliver 100 ''cs_1'' checkoutWorld"
       and ?w2.0 = "deliver 200 ''cs_1'' (deliver 100 ''cs_1'' checkoutWorld)",
     OF v c f w1 w2]
  from r have a: "map_option status
         (findById (orderId pendingOrder)
            (orders (deliver 200 ''cs_1'' (deliver 100 ''cs_1'' checkoutWorld))))
       = Some ''Paid''"
    by blast
  from r pendingOrder_facts(2)
  have b: "map_option stock (products (deliver 100 ''cs_1'' checkoutWorld) 10)
             = Some (stock (exampleProduct 5) - orderedQty 10 (items pendingOrder))
         \<and> map_option stock
               (products (deliver 200 ''cs_1'' (deliver 100 ''cs_1'' checkoutWorld)) 10)
             = Some (stock (exampleProduct 5) - 2 * orderedQty 10 (items pendingOrder))"
    by blast
  from a b v pendingOrder_session show ?thesis
    by (simp add: pendingOrder_facts pendingOrder_qty)
qed

text \<open>
  C2, counterexample. The claim as stated fails in the end-to-end scenario: of a stock of 5, an order of 2
  leaves 3 after the first delivery of its completed-checkout event and 1 after the second
  delivery of the same event.
\<close>

theorem redelivery_decrements_twice_counterexample:
  "map_option stock (products (deliver 100 ''cs_1'' checkoutWorld) 10) = Some 3
   \<and> map_option stock (products (deliver 200 ''cs_1'' (deliver 100 ''cs_1'' checkoutWorld)) 10) = Some 1"
  by (simp add: example_defs code_defs)

text \<open>
  C4. The webhook's decrement can leave a negative stock. Two checkouts of one unit each
  pass the stock check against a stock of one, since a checkout reserves nothing; once both
  orders are paid, each by one delivery of its own event, the stock is -1.
\<close>

theorem stock_negative_after_two_paid_orders:
  "map_option stock (products (exampleWorld 1) 10) = Some 1
   \<and> map (\<lambda>doc. (orderId doc, status doc, map qty (items doc))) (orders oversoldWorld)
       = [(1, ''Paid'', [1]), (2, ''Paid'', [1])]
   \<and> map_option stock (products oversoldWorld 10) = Some (- 1)"
  by (simp add: oversoldWorld_def example_defs code_defs)

text \<open>
  C9 (as amended). A status update sets \<open>isDelivered\<close> and stamps \<open>deliveredAt\<close> with the
  current time every time the requested status is Delivered, and otherwise leaves both as
  they were; it never touches \<open>isPaid\<close> and \<open>paidAt\<close>. The webhook sets status Paid and
  \<open>isPaid\<close> and stamps \<open>paidAt\<close> with the current time every time it processes a
  completed-checkout event for the order, and leaves \<open>isDelivered\<close> and \<open>deliveredAt\<close> as
  they were. So neither flag is ever reset once true, but a repeated update to Delivered or
  a redelivered event overwrites the timestamp.
\<close>

theorem companion_pairs_set_on_every_occurrence:
  "(findById oid (orders w) = Some doc
      \<and> updateOrderStatus envRate now reqUser oid s w = (w', Inr saved) \<longrightarrow>
        findById oid (orders w') = Some saved
      \<and> isDelivered saved = (s = ''Delivered'' \<or> isDelivered doc)
      \<and> deliveredAt saved = (if s = ''Delivered'' then Some now else deliveredAt doc)
      \<and> isPaid saved = isPaid doc \<and> paidAt saved = paidAt doc)
   \<and> (constructEvent (rawBody req) (stripeSignature req) webhookSecret = Some event
      \<and> eventType event = ''checkout.session.completed''
      \<and> findOneBySessionId (eventSessionId event) (orders w) = Some doc \<longrightarrow>
        (\<exists>saved. findById (orderId doc)
                    (orders (fst (stripeWebhook constructEvent envRate webhookSecret now req w)))
                  = Some saved
           \<and> status saved = ''Paid'' \<and> isPaid saved \<and> paidAt saved = Some now
           \<and> isDelivered saved = isDelivered doc \<and> deliveredAt saved = deliveredAt doc))"
proof (intro conjI impI)
  assume a: "findById oid (orders w) = Some doc
      \<and> updateOrderStatus envRate now reqUser oid s w = (w', Inr saved)"
  let ?doc = "if s = ''Delivered''
              then doc\<lparr>status := s, isDelivered := True, deliveredAt := Some now\<rparr>
              else doc\<lparr>status := s\<rparr>"
  from a have f: "findById oid (orders w) = Some doc" ..
  from a have u: "updateOrderStatus envRate now reqUser oid s w = (w', Inr saved)" ..
  from u f have "w' = w\<lparr>orders := replaceOrder (preSave envRate ?doc) (orders w)\<rparr>
                 \<and> saved = preSave envRate ?doc"
    by (cases "s = ''Delivered''")
       (auto simp: updateOrderStatus_def save_def Let_def split: if_splits)
  then have w': "orders w' = replaceOrder (preSave envRate ?doc) (orders w)"
    and sv: "saved = preSave envRate ?doc" by simp_all
  have i: "orderId (preSave envRate ?doc) = oid"
    using findById_orderId [OF f] by (simp add: preSave_kept)
  show "findById oid (orders w') = Some saved"
    unfolding w' sv by (rule findById_replaceOrder [OF f i])
  show "isDelivered saved = (s = ''Delivered'' \<or> isDelivered doc)"
    by (simp add: sv preSave_kept)
  show "deliveredAt saved = (if s = ''Delivered'' then Some now else deliveredAt doc)"
    by (simp add: sv preSave_kept)
  show "isPaid saved = isPaid doc" by (simp add: sv preSave_kept)
  show "paidAt saved = paidAt doc" by (simp add: sv preSave_kept)
next
  assume a: "constructEvent (rawBody req) (stripeSignature req) webhookSecret = Some event
      \<and> eventType event = ''checkout.session.completed''
      \<and> findOneBySessionId (eventSessionId event) (orders w) = Some doc"
  then have v: "constructEvent (rawBody req) (stripeSignature req) webhookSecret = Some event"
    and c: "eventType event = ''checkout.session.completed''"
    and f: "findOneBySessionId (eventSessionId event) (orders w) = Some doc" by simp_all
  note r = stripeWebhook_paid [where constructEvent = constructEvent and req = req
      and webhookSecret = webhookSecret and event = event and w = w and doc = doc
      and envRate = envRate and now = now, OF v c f]
  from findById_of_member [OF findOneBySessionId_in [OF f]]
  obtain found where b0: "findById (orderId doc) (orders w) = Some found" ..
  have "findById (orderId doc) (replaceOrder (paidDoc envRate now event doc) (orders w))
          = Some (paidDoc envRate now event doc)"
    by (rule findById_replaceOrder [OF b0]) (simp add: paidDoc_fields)
  with r show "\<exists>saved. findById (orderId doc)
                    (orders (fst (stripeWebhook constructEvent envRate webhookSecret now req w)))
                  = Some saved
           \<and> status saved = ''Paid'' \<and> isPaid saved \<and> paidAt saved = Some now
           \<and> isDelivered saved = isDelivered doc \<and> deliveredAt saved = deliveredAt doc"
    by (simp add: paidDoc_fields)
qed

theorem companion_pairs_set_on_every_occurrence_witness:
  "findById 1 (orders deliveredWorld) = Some deliveredOrder
   \<and> updateOrderStatus None 300 exampleAdmin 1 ''Delivered'' deliveredWorld
       = (deliveredWorld\<lparr>orders := [deliveredOrder\<lparr>deliveredAt := Some 300\<rparr>]\<rparr>,
          Inr (deliveredOrder\<lparr>deliveredAt := Some 300\<rparr>))
   \<and> findById 1 (orders (deliveredWorld\<lparr>orders := [deliveredOrder\<lparr>deliveredAt := Some 300\<rparr>]\<rparr>))
       = Some (deliveredOrder\<lparr>deliveredAt := Some 300\<rparr>)
   \<and> findOneBySessionId ''cs_1'' (orders deliveredWorld) = Some deliveredOrder
   \<and> (\<exists>saved. findById (orderId deliveredOrder) (orders (deliver 400 ''cs_1'' deliveredWorld))
                  = Some saved
         \<and> status saved = ''Paid'' \<and> isPaid saved \<and> paidAt saved = Some 400
         \<and> isDelivered saved = isDelivered deliveredOrder
         \<and> deliveredAt saved = deliveredAt deliveredOrder)"
proof -
  let ?event = "\<lparr>eventType = ''checkout.session.completed'', eventSessionId = ''cs_1'',
                 payment_intent = Some ''pi_1''\<rparr>"
  let ?saved = "deliveredOrder\<lparr>deliveredAt := Some 300\<rparr>"
  note f = deliveredOrder_stored
  have u: "updateOrderStatus None 300 exampleAdmin 1 ''Delivered'' deliveredWorld
             = (deliveredWorld\<lparr>orders := [?saved]\<rparr>, Inr ?saved)"
    by (simp add: route_defs example_defs code_defs)
  note v = signed_event [of "''cs_1''"]
  have c: "eventType ?event = ''checkout.session.completed''" by simp
  have s: "findOneBySessionId (eventSessionId ?event) (orders deliveredWorld) = Some deliveredOrder"
    by (simp only: stripeEvent.simps deliveredOrder_session(1))
  note t = companion_pairs_set_on_every_occurrence
    [where constructEvent = exampleConstructEvent and req = "signedRequest ''cs_1''"
       and webhookSecret = "Some ''whsec''" and event = ?event and w = deliveredWorld
       and doc = deliveredOrder and envRate = None and now = 300
       and oid = 1 and reqUser = exampleAdmin and s = "''Delivered''"
       and w' = "deliveredWorld\<lparr>orders := [?saved]\<rparr>" and saved = ?saved]
  note t' = companion_pairs_set_on_every_occurrence
    [where constructEvent = exampleConstructEvent and req = "signedRequest ''cs_1''"
       and webhookSecret = "Some ''whsec''" and event = ?event and w = deliveredWorld
       and doc = deliveredOrder and envRate = None and now = 400]
  note p1 = t [THEN conjunct1, THEN mp, OF conjI [OF f u], THEN conjunct1]
  note p2 = t' [THEN conjunct2, THEN mp, OF conjI [OF v conjI [OF c s]], folded deliver_def]
  show ?thesis
    by (intro conjI) (rule f u p1 deliveredOrder_session(1) p2)+
qed

text \<open>
  C9, counterexample. The claim as stated fails on the order delivered at time 100 and paid at time 50: a
  second update to Delivered at time 300 overwrites \<open>deliveredAt\<close>, and a redelivered
  payment event at time 400 overwrites \<open>paidAt\<close>.
\<close>

theorem timestamps_overwritten_counterexample:
  "map (\<lambda>doc. (isPaid doc, paidAt doc, isDelivered doc, deliveredAt doc)) (orders deliveredWorld)
     = [(True, Some 50, True, Some 100)]
   \<and> map (\<lambda>doc. (isDelivered doc, deliveredAt doc))
       (orders (fst (putOrderStatus None 300 exampleAdmin 1 ''Delivered'' deliveredWorld)))
     = [(True, Some 300)]
   \<and> map (\<lambda>doc. (isPaid doc, paidAt doc)) (orders (deliver 400 ''cs_1'' deliveredWorld))
     = [(True, Some 400)]"
  by (simp add: route_defs example_defs code_defs)

section \<open>The amount of the payment session\<close>








end
